theory Spec2Isabelle
  imports Main
begin

section \<open>CWA weather proxy: the handler \<open>getWeather\<close> of \<open>server.js\<close>\<close>

text \<open>
  The server answers \<open>GET /api/weather\<close> by resolving a location name, fetching one
  data set of the upstream provider and reshaping its payload into a flat list of
  forecast periods. The handler is one function, \<open>getWeather\<close>; its inputs are the
  environment (\<open>CWA_API_KEY\<close>), the request (\<open>req.query\<close>, \<open>req.params\<close>) and the
  outcome of \<open>axios.get\<close>. All three are arguments of the model.
\<close>

subsection \<open>Strings\<close>

text \<open>
  A JavaScript string is modelled as a \<^typ>\<open>string\<close>. The handler only compares,
  concatenates and tests strings for emptiness. The literals of the source that are not
  ASCII are written here in UTF-8, byte by byte, with their code points beside them;
  the encoding is injective and commutes with concatenation, so the three operations
  give the same results as on the source's strings.
\<close>

text \<open>The 22 names of \<open>VALID_LOCATIONS\<close>.\<close>

definition Yilan_County :: string where \<comment> \<open>the name of Yilan County: U+5B9C U+862D U+7E23\<close>
  "Yilan_County =
    [CHR 0xE5, CHR 0xAE, CHR 0x9C, CHR 0xE8, CHR 0x98, CHR 0xAD, CHR 0xE7, CHR 0xB8, CHR 0xA3]"

definition Hualien_County :: string where \<comment> \<open>the name of Hualien County: U+82B1 U+84EE U+7E23\<close>
  "Hualien_County =
    [CHR 0xE8, CHR 0x8A, CHR 0xB1, CHR 0xE8, CHR 0x93, CHR 0xAE, CHR 0xE7, CHR 0xB8, CHR 0xA3]"

definition Taitung_County :: string where \<comment> \<open>the name of Taitung County: U+81FA U+6771 U+7E23\<close>
  "Taitung_County =
    [CHR 0xE8, CHR 0x87, CHR 0xBA, CHR 0xE6, CHR 0x9D, CHR 0xB1, CHR 0xE7, CHR 0xB8, CHR 0xA3]"

definition Penghu_County :: string where \<comment> \<open>the name of Penghu County: U+6F8E U+6E56 U+7E23\<close>
  "Penghu_County =
    [CHR 0xE6, CHR 0xBE, CHR 0x8E, CHR 0xE6, CHR 0xB9, CHR 0x96, CHR 0xE7, CHR 0xB8, CHR 0xA3]"

definition Kinmen_County :: string where \<comment> \<open>the name of Kinmen County: U+91D1 U+9580 U+7E23\<close>
  "Kinmen_County =
    [CHR 0xE9, CHR 0x87, CHR 0x91, CHR 0xE9, CHR 0x96, CHR 0x80, CHR 0xE7, CHR 0xB8, CHR 0xA3]"

definition Lienchiang_County :: string where \<comment> \<open>the name of Lienchiang County: U+9023 U+6C5F U+7E23\<close>
  "Lienchiang_County =
    [CHR 0xE9, CHR 0x80, CHR 0xA3, CHR 0xE6, CHR 0xB1, CHR 0x9F, CHR 0xE7, CHR 0xB8, CHR 0xA3]"

definition Taipei_City :: string where \<comment> \<open>the name of Taipei City: U+81FA U+5317 U+5E02\<close>
  "Taipei_City =
    [CHR 0xE8, CHR 0x87, CHR 0xBA, CHR 0xE5, CHR 0x8C, CHR 0x97, CHR 0xE5, CHR 0xB8, CHR 0x82]"

definition New_Taipei_City :: string where \<comment> \<open>the name of New Taipei City: U+65B0 U+5317 U+5E02\<close>
  "New_Taipei_City =
    [CHR 0xE6, CHR 0x96, CHR 0xB0, CHR 0xE5, CHR 0x8C, CHR 0x97, CHR 0xE5, CHR 0xB8, CHR 0x82]"

definition Taoyuan_City :: string where \<comment> \<open>the name of Taoyuan City: U+6843 U+5712 U+5E02\<close>
  "Taoyuan_City =
    [CHR 0xE6, CHR 0xA1, CHR 0x83, CHR 0xE5, CHR 0x9C, CHR 0x92, CHR 0xE5, CHR 0xB8, CHR 0x82]"

definition Taichung_City :: string where \<comment> \<open>the name of Taichung City: U+81FA U+4E2D U+5E02\<close>
  "Taichung_City =
    [CHR 0xE8, CHR 0x87, CHR 0xBA, CHR 0xE4, CHR 0xB8, CHR 0xAD, CHR 0xE5, CHR 0xB8, CHR 0x82]"

definition Tainan_City :: string where \<comment> \<open>the name of Tainan City: U+81FA U+5357 U+5E02\<close>
  "Tainan_City =
    [CHR 0xE8, CHR 0x87, CHR 0xBA, CHR 0xE5, CHR 0x8D, CHR 0x97, CHR 0xE5, CHR 0xB8, CHR 0x82]"

definition Kaohsiung_City :: string where \<comment> \<open>the name of Kaohsiung City: U+9AD8 U+96C4 U+5E02\<close>
  "Kaohsiung_City =
    [CHR 0xE9, CHR 0xAB, CHR 0x98, CHR 0xE9, CHR 0x9B, CHR 0x84, CHR 0xE5, CHR 0xB8, CHR 0x82]"

definition Keelung_City :: string where \<comment> \<open>the name of Keelung City: U+57FA U+9686 U+5E02\<close>
  "Keelung_City =
    [CHR 0xE5, CHR 0x9F, CHR 0xBA, CHR 0xE9, CHR 0x9A, CHR 0x86, CHR 0xE5, CHR 0xB8, CHR 0x82]"

definition Hsinchu_County :: string where \<comment> \<open>the name of Hsinchu County: U+65B0 U+7AF9 U+7E23\<close>
  "Hsinchu_County =
    [CHR 0xE6, CHR 0x96, CHR 0xB0, CHR 0xE7, CHR 0xAB, CHR 0xB9, CHR 0xE7, CHR 0xB8, CHR 0xA3]"

definition Hsinchu_City :: string where \<comment> \<open>the name of Hsinchu City: U+65B0 U+7AF9 U+5E02\<close>
  "Hsinchu_City =
    [CHR 0xE6, CHR 0x96, CHR 0xB0, CHR 0xE7, CHR 0xAB, CHR 0xB9, CHR 0xE5, CHR 0xB8, CHR 0x82]"

definition Miaoli_County :: string where \<comment> \<open>the name of Miaoli County: U+82D7 U+6817 U+7E23\<close>
  "Miaoli_County =
    [CHR 0xE8, CHR 0x8B, CHR 0x97, CHR 0xE6, CHR 0xA0, CHR 0x97, CHR 0xE7, CHR 0xB8, CHR 0xA3]"

definition Changhua_County :: string where \<comment> \<open>the name of Changhua County: U+5F70 U+5316 U+7E23\<close>
  "Changhua_County =
    [CHR 0xE5, CHR 0xBD, CHR 0xB0, CHR 0xE5, CHR 0x8C, CHR 0x96, CHR 0xE7, CHR 0xB8, CHR 0xA3]"

definition Nantou_County :: string where \<comment> \<open>the name of Nantou County: U+5357 U+6295 U+7E23\<close>
  "Nantou_County =
    [CHR 0xE5, CHR 0x8D, CHR 0x97, CHR 0xE6, CHR 0x8A, CHR 0x95, CHR 0xE7, CHR 0xB8, CHR 0xA3]"

definition Yunlin_County :: string where \<comment> \<open>the name of Yunlin County: U+96F2 U+6797 U+7E23\<close>
  "Yunlin_County =
    [CHR 0xE9, CHR 0x9B, CHR 0xB2, CHR 0xE6, CHR 0x9E, CHR 0x97, CHR 0xE7, CHR 0xB8, CHR 0xA3]"

definition Chiayi_County :: string where \<comment> \<open>the name of Chiayi County: U+5609 U+7FA9 U+7E23\<close>
  "Chiayi_County =
    [CHR 0xE5, CHR 0x98, CHR 0x89, CHR 0xE7, CHR 0xBE, CHR 0xA9, CHR 0xE7, CHR 0xB8, CHR 0xA3]"

definition Chiayi_City :: string where \<comment> \<open>the name of Chiayi City: U+5609 U+7FA9 U+5E02\<close>
  "Chiayi_City =
    [CHR 0xE5, CHR 0x98, CHR 0x89, CHR 0xE7, CHR 0xBE, CHR 0xA9, CHR 0xE5, CHR 0xB8, CHR 0x82]"

definition Pingtung_County :: string where \<comment> \<open>the name of Pingtung County: U+5C4F U+6771 U+7E23\<close>
  "Pingtung_County =
    [CHR 0xE5, CHR 0xB1, CHR 0x8F, CHR 0xE6, CHR 0x9D, CHR 0xB1, CHR 0xE7, CHR 0xB8, CHR 0xA3]"

text \<open>The nine element names the handler reads from \<open>weatherElements\<close>.\<close>

definition el_Weather :: string where \<comment> \<open>element name, weather phenomenon: U+5929 U+6C23 U+73FE U+8C61\<close>
  "el_Weather =
    [CHR 0xE5, CHR 0xA4, CHR 0xA9, CHR 0xE6, CHR 0xB0, CHR 0xA3, CHR 0xE7, CHR 0x8F, CHR 0xBE,
     CHR 0xE8, CHR 0xB1, CHR 0xA1]"

definition el_Temperature :: string where \<comment> \<open>element name, temperature: U+6EAB U+5EA6\<close>
  "el_Temperature =
    [CHR 0xE6, CHR 0xBA, CHR 0xAB, CHR 0xE5, CHR 0xBA, CHR 0xA6]"

definition el_ApparentTemperature :: string where \<comment> \<open>element name, apparent temperature: U+9AD4 U+611F U+6EAB U+5EA6\<close>
  "el_ApparentTemperature =
    [CHR 0xE9, CHR 0xAB, CHR 0x94, CHR 0xE6, CHR 0x84, CHR 0x9F, CHR 0xE6, CHR 0xBA, CHR 0xAB,
     CHR 0xE5, CHR 0xBA, CHR 0xA6]"

definition el_ComfortIndex :: string where \<comment> \<open>element name, comfort index: U+8212 U+9069 U+5EA6 U+6307 U+6578\<close>
  "el_ComfortIndex =
    [CHR 0xE8, CHR 0x88, CHR 0x92, CHR 0xE9, CHR 0x81, CHR 0xA9, CHR 0xE5, CHR 0xBA, CHR 0xA6,
     CHR 0xE6, CHR 0x8C, CHR 0x87, CHR 0xE6, CHR 0x95, CHR 0xB8]"

definition el_ProbabilityOfPrecipitation :: string where \<comment> \<open>element name, 3-hour probability of precipitation: U+0033 U+5C0F U+6642 U+964D U+96E8 U+6A5F U+7387\<close>
  "el_ProbabilityOfPrecipitation =
    [CHR 0x33, CHR 0xE5, CHR 0xB0, CHR 0x8F, CHR 0xE6, CHR 0x99, CHR 0x82, CHR 0xE9, CHR 0x99,
     CHR 0x8D, CHR 0xE9, CHR 0x9B, CHR 0xA8, CHR 0xE6, CHR 0xA9, CHR 0x9F, CHR 0xE7,
     CHR 0x8E, CHR 0x87]"

definition el_WindDirection :: string where \<comment> \<open>element name, wind direction: U+98A8 U+5411\<close>
  "el_WindDirection =
    [CHR 0xE9, CHR 0xA2, CHR 0xA8, CHR 0xE5, CHR 0x90, CHR 0x91]"

definition el_WindSpeed :: string where \<comment> \<open>element name, wind speed: U+98A8 U+901F\<close>
  "el_WindSpeed =
    [CHR 0xE9, CHR 0xA2, CHR 0xA8, CHR 0xE9, CHR 0x80, CHR 0x9F]"

definition el_RelativeHumidity :: string where \<comment> \<open>element name, relative humidity: U+76F8 U+5C0D U+6FD5 U+5EA6\<close>
  "el_RelativeHumidity =
    [CHR 0xE7, CHR 0x9B, CHR 0xB8, CHR 0xE5, CHR 0xB0, CHR 0x8D, CHR 0xE6, CHR 0xBF, CHR 0x95,
     CHR 0xE5, CHR 0xBA, CHR 0xA6]"

definition el_WeatherDescription :: string where \<comment> \<open>element name, weather forecast summary: U+5929 U+6C23 U+9810 U+5831 U+7D9C U+5408 U+63CF U+8FF0\<close>
  "el_WeatherDescription =
    [CHR 0xE5, CHR 0xA4, CHR 0xA9, CHR 0xE6, CHR 0xB0, CHR 0xA3, CHR 0xE9, CHR 0xA0, CHR 0x90,
     CHR 0xE5, CHR 0xA0, CHR 0xB1, CHR 0xE7, CHR 0xB6, CHR 0x9C, CHR 0xE5, CHR 0x90,
     CHR 0x88, CHR 0xE6, CHR 0x8F, CHR 0x8F, CHR 0xE8, CHR 0xBF, CHR 0xB0]"

text \<open>The unit suffix with the degree sign, and the texts of the error bodies.\<close>

definition unit_degC :: string where \<comment> \<open>degree sign and C: U+00B0 U+0043\<close>
  "unit_degC =
    [CHR 0xC2, CHR 0xB0, CHR 0x43]"

definition msg_config_error :: string where \<comment> \<open>server configuration error: U+4F3A U+670D U+5668 U+8A2D U+5B9A U+932F U+8AA4\<close>
  "msg_config_error =
    [CHR 0xE4, CHR 0xBC, CHR 0xBA, CHR 0xE6, CHR 0x9C, CHR 0x8D, CHR 0xE5, CHR 0x99, CHR 0xA8,
     CHR 0xE8, CHR 0xA8, CHR 0xAD, CHR 0xE5, CHR 0xAE, CHR 0x9A, CHR 0xE9, CHR 0x8C,
     CHR 0xAF, CHR 0xE8, CHR 0xAA, CHR 0xA4]"

definition msg_config_hint :: string where \<comment> \<open>please set CWA_API_KEY in the .env file: U+8ACB U+5728 U+0020 U+002E U+0065 U+006E U+0076 U+0020 U+6A94 U+6848 U+4E2D U+8A2D U+5B9A U+0020 U+0043 U+0057 U+0041 U+005F U+0041 U+0050 U+0049 U+005F U+004B U+0045 U+0059\<close>
  "msg_config_hint =
    [CHR 0xE8, CHR 0xAB, CHR 0x8B, CHR 0xE5, CHR 0x9C, CHR 0xA8, CHR 0x20, CHR 0x2E, CHR 0x65,
     CHR 0x6E, CHR 0x76, CHR 0x20, CHR 0xE6, CHR 0xAA, CHR 0x94, CHR 0xE6, CHR 0xA1,
     CHR 0x88, CHR 0xE4, CHR 0xB8, CHR 0xAD, CHR 0xE8, CHR 0xA8, CHR 0xAD, CHR 0xE5,
     CHR 0xAE, CHR 0x9A, CHR 0x20, CHR 0x43, CHR 0x57, CHR 0x41, CHR 0x5F, CHR 0x41,
     CHR 0x50, CHR 0x49, CHR 0x5F, CHR 0x4B, CHR 0x45, CHR 0x59]"

definition msg_no_data :: string where \<comment> \<open>no data found: U+67E5 U+7121 U+8CC7 U+6599\<close>
  "msg_no_data =
    [CHR 0xE6, CHR 0x9F, CHR 0xA5, CHR 0xE7, CHR 0x84, CHR 0xA1, CHR 0xE8, CHR 0xB3, CHR 0x87,
     CHR 0xE6, CHR 0x96, CHR 0x99]"

definition msg_cannot_get :: string where \<comment> \<open>cannot get: U+7121 U+6CD5 U+53D6 U+5F97\<close>
  "msg_cannot_get =
    [CHR 0xE7, CHR 0x84, CHR 0xA1, CHR 0xE6, CHR 0xB3, CHR 0x95, CHR 0xE5, CHR 0x8F, CHR 0x96,
     CHR 0xE5, CHR 0xBE, CHR 0x97]"

definition msg_weather_data :: string where \<comment> \<open>weather data: U+5929 U+6C23 U+8CC7 U+6599\<close>
  "msg_weather_data =
    [CHR 0xE5, CHR 0xA4, CHR 0xA9, CHR 0xE6, CHR 0xB0, CHR 0xA3, CHR 0xE8, CHR 0xB3, CHR 0x87,
     CHR 0xE6, CHR 0x96, CHR 0x99]"

definition msg_cwa_error :: string where \<comment> \<open>CWA API error: U+0043 U+0057 U+0041 U+0020 U+0041 U+0050 U+0049 U+0020 U+932F U+8AA4\<close>
  "msg_cwa_error =
    [CHR 0x43, CHR 0x57, CHR 0x41, CHR 0x20, CHR 0x41, CHR 0x50, CHR 0x49, CHR 0x20, CHR 0xE9,
     CHR 0x8C, CHR 0xAF, CHR 0xE8, CHR 0xAA, CHR 0xA4]"

definition msg_cannot_get_weather :: string where \<comment> \<open>cannot get weather data: U+7121 U+6CD5 U+53D6 U+5F97 U+5929 U+6C23 U+8CC7 U+6599\<close>
  "msg_cannot_get_weather =
    [CHR 0xE7, CHR 0x84, CHR 0xA1, CHR 0xE6, CHR 0xB3, CHR 0x95, CHR 0xE5, CHR 0x8F, CHR 0x96,
     CHR 0xE5, CHR 0xBE, CHR 0x97, CHR 0xE5, CHR 0xA4, CHR 0xA9, CHR 0xE6, CHR 0xB0,
     CHR 0xA3, CHR 0xE8, CHR 0xB3, CHR 0x87, CHR 0xE6, CHR 0x96, CHR 0x99]"

definition msg_server_error :: string where \<comment> \<open>server error: U+4F3A U+670D U+5668 U+932F U+8AA4\<close>
  "msg_server_error =
    [CHR 0xE4, CHR 0xBC, CHR 0xBA, CHR 0xE6, CHR 0x9C, CHR 0x8D, CHR 0xE5, CHR 0x99, CHR 0xA8,
     CHR 0xE9, CHR 0x8C, CHR 0xAF, CHR 0xE8, CHR 0xAA, CHR 0xA4]"

definition msg_try_later :: string where \<comment> \<open>cannot get weather data, please try again later: U+7121 U+6CD5 U+53D6 U+5F97 U+5929 U+6C23 U+8CC7 U+6599 U+FF0C U+8ACB U+7A0D U+5F8C U+518D U+8A66\<close>
  "msg_try_later =
    [CHR 0xE7, CHR 0x84, CHR 0xA1, CHR 0xE6, CHR 0xB3, CHR 0x95, CHR 0xE5, CHR 0x8F, CHR 0x96,
     CHR 0xE5, CHR 0xBE, CHR 0x97, CHR 0xE5, CHR 0xA4, CHR 0xA9, CHR 0xE6, CHR 0xB0,
     CHR 0xA3, CHR 0xE8, CHR 0xB3, CHR 0x87, CHR 0xE6, CHR 0x96, CHR 0x99, CHR 0xEF,
     CHR 0xBC, CHR 0x8C, CHR 0xE8, CHR 0xAB, CHR 0x8B, CHR 0xE7, CHR 0xA8, CHR 0x8D,
     CHR 0xE5, CHR 0xBE, CHR 0x8C, CHR 0xE5, CHR 0x86, CHR 0x8D, CHR 0xE8, CHR 0xA9,
     CHR 0xA6]"

subsection \<open>The static tables\<close>

text \<open>\<open>VALID_LOCATIONS\<close> (lines 19 to 42), in the order of the source.\<close>

definition VALID_LOCATIONS :: "string list" where
  "VALID_LOCATIONS =
    [Yilan_County, Hualien_County, Taitung_County, Penghu_County, Kinmen_County,
     Lienchiang_County, Taipei_City, New_Taipei_City, Taoyuan_City, Taichung_City,
     Tainan_City, Kaohsiung_City, Keelung_City, Hsinchu_County, Hsinchu_City,
     Miaoli_County, Changhua_County, Nantou_County, Yunlin_County, Chiayi_County,
     Chiayi_City, Pingtung_County]"

definition DEFAULT_LOCATION :: string where
  "DEFAULT_LOCATION = Taichung_City"

text \<open>
  \<open>LOCATION_API_MAP\<close> (lines 49 to 72): an object literal, kept as the list of its
  members in the order of the source. A member is read with \<^const>\<open>map_of\<close>.
\<close>

definition LOCATION_API_MAP :: "(string \<times> string) list" where
  "LOCATION_API_MAP =
    [(Yilan_County, ''F-D0047-003''),
     (Taoyuan_City, ''F-D0047-007''),
     (Hsinchu_County, ''F-D0047-011''),
     (Miaoli_County, ''F-D0047-015''),
     (Changhua_County, ''F-D0047-019''),
     (Nantou_County, ''F-D0047-023''),
     (Yunlin_County, ''F-D0047-027''),
     (Chiayi_County, ''F-D0047-031''),
     (Pingtung_County, ''F-D0047-035''),
     (Taitung_County, ''F-D0047-039''),
     (Hualien_County, ''F-D0047-043''),
     (Penghu_County, ''F-D0047-047''),
     (Keelung_City, ''F-D0047-051''),
     (Hsinchu_City, ''F-D0047-055''),
     (Chiayi_City, ''F-D0047-059''),
     (Taipei_City, ''F-D0047-063''),
     (Kaohsiung_City, ''F-D0047-067''),
     (New_Taipei_City, ''F-D0047-071''),
     (Taichung_City, ''F-D0047-075''),
     (Tainan_City, ''F-D0047-079''),
     (Lienchiang_County, ''F-D0047-083''),
     (Kinmen_County, ''F-D0047-087'')]"

definition CWA_API_BASE_URL :: string where
  "CWA_API_BASE_URL = ''https://opendata.cwa.gov.tw/api''"

subsection \<open>JSON values\<close>

text \<open>
  The bodies the handler sends with \<open>res.json\<close>, and the body of an upstream error
  response (\<open>error.response.data\<close>), whose shape the source does not look into beyond
  its member \<open>message\<close>. An object is the list of its members. A number is kept as
  the text JavaScript prints for it (\<open>String(n)\<close>, which is also what \<open>n + "..."\<close>
  concatenates): \<open>25\<close>, \<open>-3\<close>, \<open>0.5\<close>; zero, of either sign, prints as \<open>0\<close>. A number
  literal beyond the range of a double is parsed to an infinity, printed \<open>Infinity\<close> or
  \<open>-Infinity\<close>.
\<close>

datatype json =
    JNull
  | JBool bool
  | JNum string
  | JStr string
  | JArr "json list"
  | JObj "(string \<times> json) list"

text \<open>JavaScript's truthiness of a value that may be \<open>undefined\<close> (\<open>None\<close>).\<close>

fun json_truthy :: "json option \<Rightarrow> bool" where
  "json_truthy None = False"
| "json_truthy (Some JNull) = False"
| "json_truthy (Some (JBool b)) = b"
| "json_truthy (Some (JNum n)) = (n \<noteq> ''0'')"
| "json_truthy (Some (JStr s)) = (s \<noteq> [])"
| "json_truthy (Some (JArr xs)) = True"
| "json_truthy (Some (JObj ms)) = True"

text \<open>
  \<open>written v\<close>: what the receiver of \<open>JSON.stringify(v)\<close> reads back. The serialiser
  writes a number that is not finite as \<open>null\<close>, at any depth, and everything else as
  it is.
\<close>

definition non_finite :: "string \<Rightarrow> bool" where
  "non_finite n = (n = ''Infinity'' \<or> n = ''-Infinity'')"

primrec written :: "json \<Rightarrow> json" where
  "written JNull = JNull"
| "written (JBool b) = JBool b"
| "written (JNum n) = (if non_finite n then JNull else JNum n)"
| "written (JStr s) = JStr s"
| "written (JArr xs) = JArr (map written xs)"
| "written (JObj ms) = JObj (map (map_prod id written) ms)"

fun string_truthy :: "string option \<Rightarrow> bool" where
  "string_truthy None = False"
| "string_truthy (Some s) = (s \<noteq> [])"

text \<open>
  The values at the leaves of the upstream payload: a string, a number (kept as its
  text, as above), a boolean or \<open>null\<close>. With their truthiness, their conversion to
  a string (in \<open>v + "..."\<close> and as a property key) and what \<open>res.json\<close> writes for them
  (\<open>null\<close> for a number that is not finite).
\<close>

datatype scalar = SStr string | SNum string | SBool bool | SNull

fun scalar_truthy :: "scalar option \<Rightarrow> bool" where
  "scalar_truthy None = False"
| "scalar_truthy (Some (SStr s)) = (s \<noteq> [])"
| "scalar_truthy (Some (SNum n)) = (n \<noteq> ''0'')"
| "scalar_truthy (Some (SBool b)) = b"
| "scalar_truthy (Some SNull) = False"

fun text_of :: "scalar \<Rightarrow> string" where
  "text_of (SStr s) = s"
| "text_of (SNum n) = n"
| "text_of (SBool b) = (if b then ''true'' else ''false'')"
| "text_of SNull = ''null''"

fun scalar_json :: "scalar \<Rightarrow> json" where
  "scalar_json (SStr s) = JStr s"
| "scalar_json (SNum n) = (if non_finite n then JNull else JNum n)"
| "scalar_json (SBool b) = JBool b"
| "scalar_json SNull = JNull"

subsection \<open>Errors the handler can throw\<close>

text \<open>
  \<open>TypeError p\<close>: reading or calling the property \<open>p\<close> of \<open>undefined\<close> or \<open>null\<close>.
  \<open>AxiosError m r\<close>: the rejection of \<open>axios.get\<close>, with its \<open>message\<close> and, when the
  upstream answered with a status outside 2xx, its \<open>response\<close> (\<open>status\<close> and \<open>data\<close>);
  a transport failure has no \<open>response\<close>.
\<close>

datatype thrown =
    TypeError string
  | AxiosError string "(nat \<times> json) option"

text \<open>
  \<open>error.message\<close>. The text of a \<open>TypeError\<close> is worded by the JavaScript engine, not by
  the source; the wording is the parameter \<open>wording\<close>, from the property name.
\<close>

fun error_message :: "(string \<Rightarrow> string) \<Rightarrow> thrown \<Rightarrow> string" where
  "error_message wording (TypeError p) = wording p"
| "error_message wording (AxiosError m r) = m"

text \<open>\<open>error.response\<close>.\<close>

fun error_response :: "thrown \<Rightarrow> (nat \<times> json) option" where
  "error_response (TypeError p) = None"
| "error_response (AxiosError m r) = r"

text \<open>
  \<open>error.response.data.message\<close>: reading the member of \<open>null\<close> throws; an object gives
  its member or \<open>undefined\<close>; a string, number, boolean or array has no such property.
\<close>

fun data_message :: "json \<Rightarrow> thrown + json option" where
  "data_message JNull = Inl (TypeError ''message'')"
| "data_message (JObj ms) = Inr (map_of ms ''message'')"
| "data_message (JBool b) = Inr None"
| "data_message (JNum n) = Inr None"
| "data_message (JStr s) = Inr None"
| "data_message (JArr xs) = Inr None"

subsection \<open>The upstream payload\<close>

text \<open>
  \<open>response.data\<close> of a successful upstream call, in the shape the handler walks
  through: \<open>records.Locations[0].Location[0].WeatherElement[..].Time[..].ElementValue[0]\<close>.
  Every member is optional, also those the source reads without a guard: \<open>None\<close> is a
  member the payload does not have (for a list, also one that is \<open>null\<close>: every access
  of the source treats the two alike). An array holds optional entries: \<open>None\<close> is a
  \<open>null\<close> entry. Where the source indexes or iterates the value is a list, as in the
  data set; at the leaves it is any scalar.
\<close>

record element_value =
  Weather :: "scalar option"
  WeatherCode :: "scalar option"
  Temperature :: "scalar option"
  ApparentTemperature :: "scalar option"
  ComfortIndex :: "scalar option"
  ProbabilityOfPrecipitation :: "scalar option"
  WindDirection :: "scalar option"
  WindSpeed :: "scalar option"
  RelativeHumidity :: "scalar option"
  WeatherDescription :: "scalar option"

record time_entry =
  StartTime :: "scalar option"
  EndTime :: "scalar option"
  ElementValue :: "element_value option list option"

record weather_element =
  ElementName :: "scalar option"
  Time :: "time_entry option list option"

record location =
  LocationName :: "scalar option"
  WeatherElement :: "weather_element option list option"

record locations =
  DatasetDescription :: "scalar option"
  Location :: "location option list option"

record records_object =
  Locations :: "locations option list option"

record payload =
  records :: "records_object option"

subsection \<open>The result\<close>

text \<open>The object \<open>forecast\<close> of lines 143 to 156 and \<open>weatherData\<close> of lines 125 to 130.\<close>

record forecast =
  startTime :: "scalar option"
  endTime :: "scalar option"
  weather :: scalar
  weatherCode :: scalar
  rain :: string
  temperature :: string
  apparentTemp :: string
  comfort :: scalar
  windDirection :: scalar
  windSpeed :: string
  humidity :: string
  description :: scalar

record weather_data =
  city :: string
  district :: "scalar option"
  updateTime :: scalar
  forecasts :: "forecast list"

datatype transformed = NotFound | Forecast weather_data

subsection \<open>The location resolver (lines 91 to 96)\<close>

text \<open>
  \<open>req.query.locationName\<close> is what the query parser of Express made of the query
  string: nothing, a string, or an array or object (\<open>locationName[]=a\<close>,
  \<open>locationName[k]=a\<close>), which the handler never looks into. \<open>req.params.locationName\<close>
  is nothing or a string.
\<close>

datatype qvalue = QString string | QNested

record request =
  query_locationName :: "qvalue option"
  params_locationName :: "string option"

fun qvalue_truthy :: "qvalue option \<Rightarrow> bool" where
  "qvalue_truthy None = False"
| "qvalue_truthy (Some (QString s)) = (s \<noteq> [])"
| "qvalue_truthy (Some QNested) = True"

text \<open>\<open>req.query.locationName || req.params.locationName\<close> (line 91).\<close>

definition requested_location :: "request \<Rightarrow> qvalue option" where
  "requested_location req =
     (if qvalue_truthy (query_locationName req) then query_locationName req
      else map_option QString (params_locationName req))"

text \<open>\<open>VALID_LOCATIONS.includes(locationName)\<close>: an array or object equals no string.\<close>

fun array_includes :: "string list \<Rightarrow> qvalue option \<Rightarrow> bool" where
  "array_includes xs (Some (QString s)) = (s \<in> set xs)"
| "array_includes xs (Some QNested) = False"
| "array_includes xs None = False"

text \<open>
  Lines 94 to 96. Past the test the value is a string of the list, so the resolved name
  is a \<^typ>\<open>string\<close>; the last case cannot be reached.
\<close>

definition resolve_location :: "qvalue option \<Rightarrow> string" where
  "resolve_location locationName =
     (if \<not> qvalue_truthy locationName \<or> \<not> array_includes VALID_LOCATIONS locationName
      then DEFAULT_LOCATION
      else (case locationName of Some (QString s) \<Rightarrow> s | _ \<Rightarrow> DEFAULT_LOCATION))"

subsection \<open>The transformer (lines 112 to 212)\<close>

text \<open>\<open>xs?.[0]\<close>: \<open>undefined\<close> when \<open>xs\<close> is missing or empty, else its first entry.\<close>

definition first_entry :: "'a option list option \<Rightarrow> 'a option" where
  "first_entry xs = (case xs of None \<Rightarrow> None | Some [] \<Rightarrow> None | Some (x # rest) \<Rightarrow> x)"

text \<open>\<open>v || ""\<close> and \<open>v ? v + unit : ""\<close> on a member that is a scalar or \<open>undefined\<close>.\<close>

definition or_empty :: "scalar option \<Rightarrow> scalar" where
  "or_empty v =
     (if scalar_truthy v then (case v of Some x \<Rightarrow> x | None \<Rightarrow> SStr []) else SStr [])"

definition with_unit :: "scalar option \<Rightarrow> string \<Rightarrow> string" where
  "with_unit v unit =
     (if scalar_truthy v then (case v of Some x \<Rightarrow> text_of x @ unit | None \<Rightarrow> []) else [])"

text \<open>
  The object \<open>weatherElements\<close> (lines 133 to 136): from a property name to the value
  stored under it, \<open>None\<close> for \<open>undefined\<close>. \<open>forEach\<close> stores \<open>element.Time\<close> under
  \<open>element.ElementName\<close>, a later element overwriting an earlier one of the same name;
  a missing name becomes the property key \<open>undefined\<close>; a \<open>null\<close> element throws.
  Only the nine element names are ever read back.
\<close>

type_synonym weather_elements = "string \<Rightarrow> time_entry option list option"

definition property_key :: "scalar option \<Rightarrow> string" where
  "property_key name = (case name of None \<Rightarrow> ''undefined'' | Some v \<Rightarrow> text_of v)"

fun collect_elements ::
  "weather_element option list \<Rightarrow> weather_elements \<Rightarrow> thrown + weather_elements" where
  "collect_elements [] weatherElements = Inr weatherElements"
| "collect_elements (None # rest) weatherElements = Inl (TypeError ''ElementName'')"
| "collect_elements (Some element # rest) weatherElements =
     collect_elements rest
       (weatherElements(property_key (ElementName element) := Time element))"

text \<open>\<open>weatherElements[name]?.[i]\<close>: the entry at index \<open>i\<close>, \<open>undefined\<close> out of range.\<close>

definition entry_at :: "weather_elements \<Rightarrow> string \<Rightarrow> nat \<Rightarrow> time_entry option" where
  "entry_at weatherElements name i =
     (case weatherElements name of
        None \<Rightarrow> None
      | Some series \<Rightarrow> if i < length series then series ! i else None)"

text \<open>\<open>entry.ElementValue?.[0]\<close> and \<open>entry.ElementValue?.[0]?.member\<close>.\<close>

definition first_value :: "time_entry \<Rightarrow> element_value option" where
  "first_value entry = first_entry (ElementValue entry)"

definition value_member ::
  "time_entry \<Rightarrow> (element_value \<Rightarrow> scalar option) \<Rightarrow> scalar option" where
  "value_member entry member =
     (case first_value entry of None \<Rightarrow> None | Some v \<Rightarrow> member v)"

text \<open>
  \<open>if (x) { forecast = f x forecast }\<close>, for an \<open>x\<close> that is an object or \<open>undefined\<close>:
  the guarded blocks of lines 160 to 209.
\<close>

definition when_present ::
  "'a option \<Rightarrow> ('a \<Rightarrow> forecast \<Rightarrow> forecast) \<Rightarrow> forecast \<Rightarrow> forecast" where
  "when_present x f forecast = (case x of None \<Rightarrow> forecast | Some v \<Rightarrow> f v forecast)"

text \<open>The body of the loop, lines 142 to 209: the forecast of index \<open>i\<close>.\<close>

definition forecast_at :: "weather_elements \<Rightarrow> nat \<Rightarrow> time_entry \<Rightarrow> forecast" where
  "forecast_at weatherElements i timeData =
     (let forecast =
            \<lparr>startTime = StartTime timeData, endTime = EndTime timeData,
             weather = SStr [], weatherCode = SStr [], rain = [], temperature = [],
             apparentTemp = [], comfort = SStr [], windDirection = SStr [],
             windSpeed = [], humidity = [], description = SStr []\<rparr>;
          forecast =
            when_present (first_value timeData)
              (\<lambda>wxValue forecast.
                 forecast\<lparr>weather := or_empty (Weather wxValue),
                          weatherCode := or_empty (WeatherCode wxValue)\<rparr>)
              forecast;
          forecast =
            when_present (entry_at weatherElements el_Temperature i)
              (\<lambda>entry forecast.
                 forecast\<lparr>temperature :=
                   with_unit (value_member entry Temperature) unit_degC\<rparr>)
              forecast;
          forecast =
            when_present (entry_at weatherElements el_ApparentTemperature i)
              (\<lambda>entry forecast.
                 forecast\<lparr>apparentTemp :=
                   with_unit (value_member entry ApparentTemperature) unit_degC\<rparr>)
              forecast;
          forecast =
            when_present (entry_at weatherElements el_ComfortIndex i)
              (\<lambda>entry forecast.
                 forecast\<lparr>comfort := or_empty (value_member entry ComfortIndex)\<rparr>)
              forecast;
          forecast =
            when_present (entry_at weatherElements el_ProbabilityOfPrecipitation i)
              (\<lambda>entry forecast.
                 forecast\<lparr>rain :=
                   with_unit (value_member entry ProbabilityOfPrecipitation) ''%''\<rparr>)
              forecast;
          forecast =
            when_present (entry_at weatherElements el_WindDirection i)
              (\<lambda>entry forecast.
                 forecast\<lparr>windDirection := or_empty (value_member entry WindDirection)\<rparr>)
              forecast;
          forecast =
            when_present (entry_at weatherElements el_WindSpeed i)
              (\<lambda>entry forecast.
                 forecast\<lparr>windSpeed :=
                   with_unit (value_member entry WindSpeed) '' m/s''\<rparr>)
              forecast;
          forecast =
            when_present (entry_at weatherElements el_RelativeHumidity i)
              (\<lambda>entry forecast.
                 forecast\<lparr>humidity :=
                   with_unit (value_member entry RelativeHumidity) ''%''\<rparr>)
              forecast;
          forecast =
            when_present (entry_at weatherElements el_WeatherDescription i)
              (\<lambda>entry forecast.
                 forecast\<lparr>description :=
                   or_empty (value_member entry WeatherDescription)\<rparr>)
              forecast
      in forecast)"

text \<open>
  The loop of line 141 over \<open>wxTimes\<close>. The list is what remains of \<open>wxTimes\<close> from
  index \<open>i\<close> on; \<open>acc\<close> is \<open>weatherData.forecasts\<close> so far. Reading \<open>StartTime\<close> of a
  \<open>null\<close> entry throws.
\<close>

fun forecast_loop ::
  "weather_elements \<Rightarrow> time_entry option list \<Rightarrow> nat \<Rightarrow> forecast list \<Rightarrow>
   thrown + forecast list" where
  "forecast_loop weatherElements [] i acc = Inr acc"
| "forecast_loop weatherElements (None # rest) i acc = Inl (TypeError ''StartTime'')"
| "forecast_loop weatherElements (Some timeData # rest) i acc =
     forecast_loop weatherElements rest (Suc i)
       (acc @ [forecast_at weatherElements i timeData])"

text \<open>
  Lines 114 to 212, from \<open>response.data\<close> and the resolved name to the not-found
  condition, the assembled \<open>weatherData\<close>, or the error thrown on the way.
\<close>

definition transform :: "payload \<Rightarrow> string \<Rightarrow> thrown + transformed" where
  "transform data locationName =
     (case records data of
        None \<Rightarrow> Inl (TypeError ''Locations'')
      | Some recs \<Rightarrow>
          (let locationsData = first_entry (Locations recs);
               locationData =
                 (case locationsData of None \<Rightarrow> None | Some ld \<Rightarrow> first_entry (Location ld))
           in case locationData of
                None \<Rightarrow> Inr NotFound
              | Some loc \<Rightarrow>
                  (case WeatherElement loc of
                     None \<Rightarrow> Inl (TypeError ''forEach'')
                   | Some elements \<Rightarrow>
                       (case collect_elements elements (\<lambda>name. None) of
                          Inl e \<Rightarrow> Inl e
                        | Inr weatherElements \<Rightarrow>
                            (let wxTimes =
                                   (case weatherElements el_Weather of
                                      None \<Rightarrow> []
                                    | Some series \<Rightarrow> series)
                             in case forecast_loop weatherElements wxTimes 0 [] of
                                  Inl e \<Rightarrow> Inl e
                                | Inr fs \<Rightarrow>
                                    Inr (Forecast
                                      \<lparr>city = locationName,
                                       district = LocationName loc,
                                       updateTime =
                                         or_empty
                                           (case locationsData of
                                              None \<Rightarrow> None
                                            | Some ld \<Rightarrow> DatasetDescription ld),
                                       forecasts = fs\<rparr>))))))"

subsection \<open>The handler (lines 80 to 240)\<close>

text \<open>
  \<open>res.json\<close> serialises its argument: a member whose value is \<open>undefined\<close> is left out.
\<close>

definition optional_member :: "string \<Rightarrow> scalar option \<Rightarrow> (string \<times> json) list" where
  "optional_member name v = (case v of None \<Rightarrow> [] | Some x \<Rightarrow> [(name, scalar_json x)])"

definition forecast_json :: "forecast \<Rightarrow> json" where
  "forecast_json f =
     JObj (optional_member ''startTime'' (startTime f) @
           optional_member ''endTime'' (endTime f) @
           [(''weather'', scalar_json (weather f)),
            (''weatherCode'', scalar_json (weatherCode f)),
            (''rain'', JStr (rain f)),
            (''temperature'', JStr (temperature f)),
            (''apparentTemp'', JStr (apparentTemp f)),
            (''comfort'', scalar_json (comfort f)),
            (''windDirection'', scalar_json (windDirection f)),
            (''windSpeed'', JStr (windSpeed f)),
            (''humidity'', JStr (humidity f)),
            (''description'', scalar_json (description f))])"

definition weather_data_json :: "weather_data \<Rightarrow> json" where
  "weather_data_json weatherData =
     JObj ([(''city'', JStr (city weatherData))] @
           optional_member ''district'' (district weatherData) @
           [(''updateTime'', scalar_json (updateTime weatherData)),
            (''forecasts'', JArr (map forecast_json (forecasts weatherData)))])"

text \<open>
  What the handler does with a \<open>GET\<close> request that carries no cache validators.
  \<open>Sent status body\<close>: it answers with this status and this body, as the receiver
  reads it. \<open>SentEmpty status\<close>: it answers with this status and no body.
  \<open>Unhandled e\<close>: the \<open>catch\<close> block itself throws \<open>e\<close>, which leaves the handler.
  \<open>StatusRefused status\<close>: the status handed to \<open>res.status\<close> is no three-digit code,
  the response is refused with a \<open>RangeError\<close>, and that error leaves the handler.
\<close>

datatype outcome = Sent nat json | SentEmpty nat | Unhandled thrown | StatusRefused nat

text \<open>
  \<open>res.status(status).json(body)\<close> with a status that is not fixed in the source. A
  status outside 100 to 999 is refused when the head is written. With an informational
  status, and with 204, 205 and 304, Express and Node send the head and drop the body.
  Otherwise the body is sent as \<open>JSON.stringify\<close> writes it.
\<close>

definition respond :: "nat \<Rightarrow> json \<Rightarrow> outcome" where
  "respond status body =
     (if status < 100 \<or> 999 < status then StatusRefused status
      else if status < 200 \<or> status = 204 \<or> status = 205 \<or> status = 304
      then SentEmpty status
      else Sent status (written body))"

text \<open>
  The \<open>catch\<close> block, lines 218 to 239. In line 226 the argument of \<open>json\<close>, which reads
  \<open>error.response.data.message\<close>, is evaluated before the response is written.
\<close>

definition on_error :: "(string \<Rightarrow> string) \<Rightarrow> thrown \<Rightarrow> outcome" where
  "on_error wording error =
     (case error_response error of
        Some (status, data) \<Rightarrow>
          (case data_message data of
             Inl e \<Rightarrow> Unhandled e
           | Inr m \<Rightarrow>
               respond status
                 (JObj [(''error'', JStr msg_cwa_error),
                        (''message'',
                           if json_truthy m
                           then (case m of Some v \<Rightarrow> v | None \<Rightarrow> JStr msg_cannot_get_weather)
                           else JStr msg_cannot_get_weather),
                        (''details'', data)]))
      | None \<Rightarrow>
          Sent 500
            (JObj [(''error'', JStr msg_server_error),
                   (''message'', JStr msg_try_later),
                   (''debug'', JStr (error_message wording error))]))"

text \<open>
  \<open>getWeather\<close>. \<open>apiKey\<close> is \<open>process.env.CWA_API_KEY\<close>; \<open>axios_get url key\<close> is the
  outcome of \<open>axios.get\<close> for that address and \<open>Authorization\<close> parameter: the payload
  of a 2xx response, or the error it rejects with. The first component of the result
  lists the upstream requests the handler issued.
\<close>

definition getWeather ::
  "(string \<Rightarrow> string) \<Rightarrow> string option \<Rightarrow> request \<Rightarrow>
   (string \<Rightarrow> string \<Rightarrow> thrown + payload) \<Rightarrow> (string \<times> string) list \<times> outcome" where
  "getWeather wording apiKey req axios_get =
     (if \<not> string_truthy apiKey
      then ([], Sent 500 (JObj [(''error'', JStr msg_config_error),
                                (''message'', JStr msg_config_hint)]))
      else
        (let locationName = resolve_location (requested_location req);
             datasetId =
               (case map_of LOCATION_API_MAP locationName of
                  None \<Rightarrow> ''undefined''
                | Some d \<Rightarrow> d);
             url = CWA_API_BASE_URL @ ''/v1/rest/datastore/'' @ datasetId;
             key = (case apiKey of Some k \<Rightarrow> k | None \<Rightarrow> [])
         in ([(url, key)],
             (case (case axios_get url key of
                      Inl e \<Rightarrow> Inl e
                    | Inr data \<Rightarrow> transform data locationName) of
                Inr NotFound \<Rightarrow>
                  Sent 404
                    (JObj [(''error'', JStr msg_no_data),
                           (''message'',
                              JStr (msg_cannot_get @ locationName @ msg_weather_data))])
              | Inr (Forecast weatherData) \<Rightarrow>
                  Sent 200
                    (JObj [(''success'', JBool True),
                           (''data'', weather_data_json weatherData)])
              | Inl error \<Rightarrow> on_error wording error))))"

text \<open>
  Two kinds of upstream: \<open>upstream_ok data\<close> answers every request with a 2xx response
  that carries \<open>data\<close>; \<open>upstream_fails e\<close> makes every request reject with \<open>e\<close>.
\<close>

definition upstream_ok :: "payload \<Rightarrow> string \<Rightarrow> string \<Rightarrow> thrown + payload" where
  "upstream_ok data url key = Inr data"

definition upstream_fails :: "thrown \<Rightarrow> string \<Rightarrow> string \<Rightarrow> thrown + payload" where
  "upstream_fails e url key = Inl e"

subsection \<open>The vocabulary of the properties\<close>

text \<open>
  The properties below speak of the first sub-location of a payload, of the time series
  an element name has there, and of the entry a series has at an index. These three
  definitions say what is meant, on the payload alone.

  \<open>first_location\<close>: the first entry of \<open>Location\<close> of the first entry of \<open>Locations\<close>;
  \<open>None\<close> when \<open>records\<close>, a list or a first entry is missing.
\<close>

definition first_location :: "payload \<Rightarrow> location option" where
  "first_location data =
     (case records data of
        None \<Rightarrow> None
      | Some recs \<Rightarrow>
          (case first_entry (Locations recs) of
             None \<Rightarrow> None
           | Some ld \<Rightarrow> first_entry (Location ld)))"

text \<open>
  \<open>series_of elements name\<close>: the \<open>Time\<close> list of the element called \<open>name\<close>, of the last
  one should several carry the name; empty when no element carries the name or the
  element has no \<open>Time\<close>.
\<close>

definition named :: "string \<Rightarrow> weather_element option \<Rightarrow> bool" where
  "named name element =
     (case element of None \<Rightarrow> False | Some e \<Rightarrow> property_key (ElementName e) = name)"

definition series_of :: "weather_element option list \<Rightarrow> string \<Rightarrow> time_entry option list" where
  "series_of elements name =
     (case find (named name) (rev elements) of
        Some (Some e) \<Rightarrow> (case Time e of None \<Rightarrow> [] | Some series \<Rightarrow> series)
      | _ \<Rightarrow> [])"

text \<open>\<open>series_entry elements name i\<close>: the entry of that series at index \<open>i\<close>, if it has one.\<close>

definition series_entry ::
  "weather_element option list \<Rightarrow> string \<Rightarrow> nat \<Rightarrow> time_entry option" where
  "series_entry elements name i =
     (let series = series_of elements name
      in if i < length series then series ! i else None)"

text \<open>
  \<open>raw_value elements name member i\<close>: the raw value of an attribute at index \<open>i\<close>, the
  member \<open>member\<close> of the first \<open>ElementValue\<close> of that entry; \<open>None\<close> when the entry, its
  \<open>ElementValue\<close> or the member is missing.
\<close>

definition raw_value ::
  "weather_element option list \<Rightarrow> string \<Rightarrow> (element_value \<Rightarrow> scalar option) \<Rightarrow> nat \<Rightarrow>
   scalar option" where
  "raw_value elements name member i =
     (case series_entry elements name i of
        None \<Rightarrow> None
      | Some entry \<Rightarrow> value_member entry member)"

text \<open>
  \<open>rendered v unit\<close>: a raw value with its unit, kind by kind. A non-empty string and a
  number other than zero are followed by the unit; so is \<open>true\<close>; a missing value,
  \<open>null\<close>, the empty string, the number zero and \<open>false\<close> give the empty string.
\<close>

fun rendered :: "scalar option \<Rightarrow> string \<Rightarrow> string" where
  "rendered None unit = []"
| "rendered (Some SNull) unit = []"
| "rendered (Some (SStr s)) unit = (if s = [] then [] else s @ unit)"
| "rendered (Some (SNum n)) unit = (if n = ''0'' then [] else n @ unit)"
| "rendered (Some (SBool b)) unit = (if b then ''true'' @ unit else [])"


text \<open>\<open>finite_numbers v\<close>: no number in \<open>v\<close>, at any depth, is an infinity.\<close>

fun finite_numbers :: "json \<Rightarrow> bool" where
  "finite_numbers (JNum n) = (n \<noteq> ''Infinity'' \<and> n \<noteq> ''-Infinity'')"
| "finite_numbers (JArr xs) = (\<forall>x \<in> set xs. finite_numbers x)"
| "finite_numbers (JObj ms) = (\<forall>m \<in> set ms. finite_numbers (snd m))"
| "finite_numbers other = True"

text \<open>The forecasts of a result of the transformer, none when it has no result.\<close>

fun forecasts_of :: "thrown + transformed \<Rightarrow> forecast list" where
  "forecasts_of (Inr (Forecast wd)) = forecasts wd"
| "forecasts_of other = []"

text \<open>
  \<open>collected elements\<close>: the object \<open>weatherElements\<close> after line 136, for a list without
  \<open>null\<close> entries, written as a lookup in the list.
\<close>

definition collected :: "weather_element option list \<Rightarrow> weather_elements" where
  "collected elements =
     (\<lambda>name. case find (named name) (rev elements) of
                Some (Some e) \<Rightarrow> Time e
              | _ \<Rightarrow> None)"

text \<open>
  \<open>shown_message data\<close>: the member \<open>message\<close> of an upstream error body when the body
  is an object and the member is truthy, else the default text of line 228.
\<close>

definition shown_message :: "json \<Rightarrow> json" where
  "shown_message data =
     (case data of
        JObj ms \<Rightarrow>
          (case map_of ms ''message'' of
             None \<Rightarrow> JStr msg_cannot_get_weather
           | Some v \<Rightarrow> if json_truthy (Some v) then v else JStr msg_cannot_get_weather)
      | _ \<Rightarrow> JStr msg_cannot_get_weather)"


subsection \<open>Sample inputs\<close>

text \<open>
  A small payload in the upstream shape: a master series of three entries (the last
  without \<open>StartTime\<close> and without \<open>ElementValue\<close>), a temperature series of two entries
  (the second with an empty value), a wind speed series of four numbers, a humidity
  element without \<open>Time\<close>, a wind direction series of two entries, a description series
  of one, and no other element.
\<close>

definition no_value :: element_value where
  "no_value =
     \<lparr>Weather = None, WeatherCode = None, Temperature = None, ApparentTemperature = None,
      ComfortIndex = None, ProbabilityOfPrecipitation = None, WindDirection = None,
      WindSpeed = None, RelativeHumidity = None, WeatherDescription = None\<rparr>"

definition sample_master :: "time_entry option list" where
  "sample_master =
     [Some \<lparr>StartTime = Some (SStr ''2025-01-01T06:00:00+08:00''),
             EndTime = Some (SStr ''2025-01-01T18:00:00+08:00''),
             ElementValue =
               Some [Some (no_value\<lparr>Weather := Some (SStr ''Cloudy''), WeatherCode := Some (SStr ''04'')\<rparr>)]\<rparr>,
      Some \<lparr>StartTime = Some (SStr ''2025-01-01T18:00:00+08:00''),
             EndTime = Some (SStr ''2025-01-02T06:00:00+08:00''),
             ElementValue = Some [Some (no_value\<lparr>Weather := Some (SStr ''Rain'')\<rparr>)]\<rparr>,
      Some \<lparr>StartTime = None,
             EndTime = Some (SStr ''2025-01-02T18:00:00+08:00''),
             ElementValue = None\<rparr>]"

definition sample_timed :: "element_value \<Rightarrow> time_entry option" where
  "sample_timed v = Some \<lparr>StartTime = None, EndTime = None, ElementValue = Some [Some v]\<rparr>"

definition sample_elements :: "weather_element option list" where
  "sample_elements =
     [Some \<lparr>ElementName = Some (SStr el_Temperature),
             Time = Some [sample_timed (no_value\<lparr>Temperature := Some (SStr ''25'')\<rparr>),
                          sample_timed (no_value\<lparr>Temperature := Some (SStr [])\<rparr>)]\<rparr>,
      Some \<lparr>ElementName = Some (SStr el_Weather), Time = Some sample_master\<rparr>,
      Some \<lparr>ElementName = Some (SStr el_WindSpeed),
             Time = Some [sample_timed (no_value\<lparr>WindSpeed := Some (SNum ''3'')\<rparr>),
                          sample_timed (no_value\<lparr>WindSpeed := Some (SNum ''4'')\<rparr>),
                          sample_timed (no_value\<lparr>WindSpeed := Some (SNum ''5'')\<rparr>),
                          sample_timed (no_value\<lparr>WindSpeed := Some (SNum ''6'')\<rparr>)]\<rparr>,
      Some \<lparr>ElementName = Some (SStr el_RelativeHumidity), Time = None\<rparr>,
      Some \<lparr>ElementName = Some (SStr el_WindDirection),
             Time = Some [sample_timed (no_value\<lparr>WindDirection := Some (SStr ''NE'')\<rparr>),
                          sample_timed (no_value\<lparr>WindDirection := Some (SStr ''E'')\<rparr>)]\<rparr>,
      Some \<lparr>ElementName = Some (SStr el_WeatherDescription),
             Time = Some [sample_timed
                            (no_value\<lparr>WeatherDescription := Some (SStr ''Cloudy, then rain'')\<rparr>)]\<rparr>]"

definition sample_location :: location where
  "sample_location =
     \<lparr>LocationName = Some (SStr ''Zhongzheng''), WeatherElement = Some sample_elements\<rparr>"

definition sample_payload :: payload where
  "sample_payload =
     \<lparr>records = Some \<lparr>Locations = Some
        [Some \<lparr>DatasetDescription = Some (SStr ''weekly forecast''),
                Location = Some [Some sample_location]\<rparr>]\<rparr>\<rparr>"

text \<open>A payload of one period whose temperature is the number zero.\<close>

definition elements_with_zero :: "weather_element option list" where
  "elements_with_zero =
     [Some \<lparr>ElementName = Some (SStr el_Weather),
             Time = Some [sample_timed (no_value\<lparr>Weather := Some (SStr ''Snow'')\<rparr>)]\<rparr>,
      Some \<lparr>ElementName = Some (SStr el_Temperature),
             Time = Some [sample_timed (no_value\<lparr>Temperature := Some (SNum ''0'')\<rparr>)]\<rparr>]"

definition location_with_zero :: location where
  "location_with_zero =
     \<lparr>LocationName = Some (SStr ''Yushan''), WeatherElement = Some elements_with_zero\<rparr>"

definition payload_with_zero :: payload where
  "payload_with_zero =
     \<lparr>records = Some \<lparr>Locations = Some
        [Some \<lparr>DatasetDescription = None,
                Location = Some [Some location_with_zero]\<rparr>]\<rparr>\<rparr>"

text \<open>Payloads with a part missing.\<close>

definition elements_without_master :: "weather_element option list" where
  "elements_without_master =
     [Some \<lparr>ElementName = Some (SStr el_Temperature),
             Time = Some [sample_timed (no_value\<lparr>Temperature := Some (SStr ''25'')\<rparr>),
                          sample_timed (no_value\<lparr>Temperature := Some (SStr ''26'')\<rparr>)]\<rparr>]"

definition location_without_master :: location where
  "location_without_master =
     \<lparr>LocationName = Some (SStr ''Zhongzheng''), WeatherElement = Some elements_without_master\<rparr>"

definition payload_without_master :: payload where
  "payload_without_master =
     \<lparr>records = Some \<lparr>Locations = Some
        [Some \<lparr>DatasetDescription = None,
                Location = Some [Some location_without_master]\<rparr>]\<rparr>\<rparr>"

definition payload_without_records :: payload where
  "payload_without_records = \<lparr>records = None\<rparr>"

definition payload_without_regions :: payload where
  "payload_without_regions = \<lparr>records = Some \<lparr>Locations = Some []\<rparr>\<rparr>"

definition location_without_elements :: location where
  "location_without_elements = \<lparr>LocationName = Some (SStr ''Zhongzheng''), WeatherElement = None\<rparr>"

definition payload_without_elements :: payload where
  "payload_without_elements =
     \<lparr>records = Some \<lparr>Locations = Some
        [Some \<lparr>DatasetDescription = None,
                Location = Some [Some location_without_elements]\<rparr>]\<rparr>\<rparr>"

text \<open>
  Requests, a wording of the engine's \<open>TypeError\<close> messages, and two failing
  upstreams: one that answers 503 with the body \<open>{"message": "rate limited"}\<close>, and one
  that cannot be reached.
\<close>

definition request_plain :: request where
  "request_plain = \<lparr>query_locationName = None, params_locationName = None\<rparr>"

definition request_by_query :: "string \<Rightarrow> request" where
  "request_by_query name =
     \<lparr>query_locationName = Some (QString name), params_locationName = None\<rparr>"

definition request_by_path :: "string \<Rightarrow> request" where
  "request_by_path name =
     \<lparr>query_locationName = None, params_locationName = Some name\<rparr>"

definition sample_wording :: "string \<Rightarrow> string" where
  "sample_wording p = ''Cannot read properties of undefined (reading '' @ p @ '')''"

definition rate_limited :: json where
  "rate_limited = JObj [(''message'', JStr ''rate limited'')]"

definition upstream_503 :: "string \<Rightarrow> string \<Rightarrow> thrown + payload" where
  "upstream_503 =
     upstream_fails
       (AxiosError ''Request failed with status code 503'' (Some (503, rate_limited)))"

definition upstream_unreachable :: "string \<Rightarrow> string \<Rightarrow> thrown + payload" where
  "upstream_unreachable = upstream_fails (AxiosError ''connect ECONNREFUSED'' None)"

section \<open>Lemmas\<close>

subsection \<open>The tables\<close>

lemmas location_names =
  Yilan_County_def Hualien_County_def Taitung_County_def Penghu_County_def
  Kinmen_County_def Lienchiang_County_def Taipei_City_def New_Taipei_City_def
  Taoyuan_City_def Taichung_City_def Tainan_City_def Kaohsiung_City_def
  Keelung_City_def Hsinchu_County_def Hsinchu_City_def Miaoli_County_def
  Changhua_County_def Nantou_County_def Yunlin_County_def Chiayi_County_def
  Chiayi_City_def Pingtung_County_def

lemma empty_not_valid: "[] \<notin> set VALID_LOCATIONS"
  by (simp add: VALID_LOCATIONS_def location_names)

lemma distinct_valid: "distinct VALID_LOCATIONS"
  by (simp add: VALID_LOCATIONS_def location_names)

lemma length_valid: "length VALID_LOCATIONS = 22"
  by (simp add: VALID_LOCATIONS_def)

lemma dataset_ids: "map (map_of LOCATION_API_MAP) VALID_LOCATIONS =
   map Some [''F-D0047-003'', ''F-D0047-043'', ''F-D0047-039'', ''F-D0047-047'', ''F-D0047-087'',
     ''F-D0047-083'', ''F-D0047-063'', ''F-D0047-071'', ''F-D0047-007'', ''F-D0047-075'',
     ''F-D0047-079'', ''F-D0047-067'', ''F-D0047-051'', ''F-D0047-011'', ''F-D0047-055'',
     ''F-D0047-015'', ''F-D0047-019'', ''F-D0047-023'', ''F-D0047-027'', ''F-D0047-031'',
     ''F-D0047-059'', ''F-D0047-035'']"
  by (simp add: VALID_LOCATIONS_def LOCATION_API_MAP_def location_names)

lemma dataset_ids_distinct: "distinct (map (map_of LOCATION_API_MAP) VALID_LOCATIONS)"
  unfolding dataset_ids by (simp add: distinct_map)

subsection \<open>The \<open>forEach\<close> of line 134 and the loop of line 141, in closed form\<close>

lemma find_append_cases:
  "find P (xs @ ys) = (case find P xs of None \<Rightarrow> find P ys | Some x \<Rightarrow> Some x)"
  by (induction xs) auto

lemma collect_elements_result:
  "collect_elements elements we =
     (if None \<in> set elements then Inl (TypeError ''ElementName'')
      else Inr (\<lambda>name. case find (named name) (rev elements) of
                          Some (Some e) \<Rightarrow> Time e
                        | _ \<Rightarrow> we name))"
proof (induction elements arbitrary: we)
  case Nil
  show ?case by simp
next
  case (Cons x rest)
  show ?case
  proof (cases x)
    case None
    then show ?thesis by simp
  next
    case (Some element)
    show ?thesis
    proof (cases "None \<in> set rest")
      case True
      with Some Cons show ?thesis by simp
    next
      case False
      have "(\<lambda>name. case find (named name) (rev rest) of
                Some (Some e) \<Rightarrow> Time e
              | _ \<Rightarrow> (we(property_key (ElementName element) := Time element)) name)
          = (\<lambda>name. case find (named name) (rev rest @ [Some element]) of
                Some (Some e) \<Rightarrow> Time e
              | _ \<Rightarrow> we name)"
      proof
        fix name
        show "(case find (named name) (rev rest) of
                Some (Some e) \<Rightarrow> Time e
              | _ \<Rightarrow> (we(property_key (ElementName element) := Time element)) name)
          = (case find (named name) (rev rest @ [Some element]) of
                Some (Some e) \<Rightarrow> Time e
              | _ \<Rightarrow> we name)"
        proof (cases "find (named name) (rev rest)")
          case None
          then show ?thesis
            by (simp add: find_append_cases named_def)
        next
          case (Some y)
          then have "named name y" by (auto simp: find_Some_iff)
          then obtain e where "y = Some e" by (cases y) (auto simp: named_def)
          with Some show ?thesis by (simp add: find_append_cases)
        qed
      qed
      with Some False Cons show ?thesis by simp
    qed
  qed
qed

lemma forecast_loop_result:
  "forecast_loop we ts i acc =
     (if None \<in> set ts then Inl (TypeError ''StartTime'')
      else Inr (acc @ map (\<lambda>j. forecast_at we (i + j) (the (ts ! j))) [0..<length ts]))"
proof (induction ts arbitrary: i acc)
  case Nil
  show ?case by simp
next
  case (Cons t rest)
  show ?case
  proof (cases t)
    case None
    then show ?thesis by simp
  next
    case (Some timeData)
    have "map (\<lambda>j. forecast_at we (i + j) (the ((Some timeData # rest) ! j))) [0..<Suc (length rest)]
        = forecast_at we i timeData # map (\<lambda>j. forecast_at we (Suc i + j) (the (rest ! j))) [0..<length rest]"
      by (simp add: upt_conv_Cons map_Suc_upt [symmetric] del: upt_Suc)
    with Some Cons show ?thesis by simp
  qed
qed

lemma collected_series:
  "(case collected elements name of None \<Rightarrow> [] | Some series \<Rightarrow> series) =
     series_of elements name"
  by (simp add: collected_def series_of_def split: option.splits)

lemma entry_at_collected:
  "entry_at (collected elements) name i = series_entry elements name i"
  by (simp add: entry_at_def series_entry_def collected_def series_of_def Let_def
      split: option.splits)

lemma series_of_absent:
  assumes "\<forall>e \<in> set elements. \<not> named name e"
  shows "series_of elements name = []"
proof -
  have "find (named name) (rev elements) = None"
    using assms by (simp add: find_None_iff)
  then show ?thesis by (simp add: series_of_def)
qed

subsection \<open>The transformer, from the payload to its result\<close>

lemma transform_located:
  assumes "transform data locationName = Inr (Forecast wd)"
  shows "\<exists>loc elements. first_location data = Some loc \<and> WeatherElement loc = Some elements"
  using assms
  by (auto simp add: transform_def first_location_def Let_def
      split: option.splits sum.splits)

lemma transform_result:
  assumes "first_location data = Some loc" and "WeatherElement loc = Some elements"
  shows "\<exists>label. transform data locationName =
     (if None \<in> set elements then Inl (TypeError ''ElementName'')
      else if None \<in> set (series_of elements el_Weather) then Inl (TypeError ''StartTime'')
      else Inr (Forecast
        \<lparr>city = locationName, district = LocationName loc, updateTime = label,
         forecasts =
           map (\<lambda>j. forecast_at (collected elements) j (the (series_of elements el_Weather ! j)))
             [0..<length (series_of elements el_Weather)]\<rparr>))"
  using assms
  by (auto simp add: transform_def first_location_def Let_def collect_elements_result
      forecast_loop_result collected_def[symmetric] collected_series
      split: option.splits)

lemma transform_returns:
  assumes "first_location data = Some loc" and "WeatherElement loc = Some elements"
    and "None \<notin> set elements" and "None \<notin> set (series_of elements el_Weather)"
  shows "\<exists>wd. transform data locationName = Inr (Forecast wd)"
  using transform_result [OF assms(1,2), of locationName] assms(3,4) by auto

lemma transform_forecasts:
  assumes "transform data locationName = Inr (Forecast wd)"
    and "first_location data = Some loc" and "WeatherElement loc = Some elements"
  shows "None \<notin> set (series_of elements el_Weather)"
    and "city wd = locationName"
    and "district wd = LocationName loc"
    and "forecasts wd =
           map (\<lambda>j. forecast_at (collected elements) j (the (series_of elements el_Weather ! j)))
             [0..<length (series_of elements el_Weather)]"
  using transform_result [OF assms(2,3), of locationName] assms(1)
  by (auto split: if_splits)

lemma forecast_nth:
  assumes "transform data locationName = Inr (Forecast wd)"
    and "first_location data = Some loc" and "WeatherElement loc = Some elements"
    and "i < length (forecasts wd)"
  shows "\<exists>t. series_of elements el_Weather ! i = Some t \<and>
              forecasts wd ! i = forecast_at (collected elements) i t"
proof -
  let ?S = "series_of elements el_Weather"
  from transform_forecasts(4) [OF assms(1-3)] assms(4) have i: "i < length ?S" by simp
  with transform_forecasts(1) [OF assms(1-3)] obtain t where t: "?S ! i = Some t"
    by (cases "?S ! i") (auto simp: in_set_conv_nth)
  from transform_forecasts(4) [OF assms(1-3)] i t
  have "forecasts wd ! i = forecast_at (collected elements) i t" by simp
  with t show ?thesis by blast
qed

subsection \<open>The fields of one forecast\<close>

lemma when_present_sel:
  "sel (when_present x f fc) = (case x of None \<Rightarrow> sel fc | Some v \<Rightarrow> sel (f v fc))"
  by (simp add: when_present_def split: option.splits)

lemma forecast_at_fields:
  "startTime (forecast_at we i t) = StartTime t"
  "endTime (forecast_at we i t) = EndTime t"
  "weather (forecast_at we i t) =
     (case first_value t of None \<Rightarrow> SStr [] | Some wxValue \<Rightarrow> or_empty (Weather wxValue))"
  "weatherCode (forecast_at we i t) =
     (case first_value t of
        None \<Rightarrow> SStr []
      | Some wxValue \<Rightarrow> or_empty (WeatherCode wxValue))"
  "temperature (forecast_at we i t) =
     (case entry_at we el_Temperature i of
        None \<Rightarrow> []
      | Some entry \<Rightarrow> with_unit (value_member entry Temperature) unit_degC)"
  "apparentTemp (forecast_at we i t) =
     (case entry_at we el_ApparentTemperature i of
        None \<Rightarrow> []
      | Some entry \<Rightarrow> with_unit (value_member entry ApparentTemperature) unit_degC)"
  "comfort (forecast_at we i t) =
     (case entry_at we el_ComfortIndex i of
        None \<Rightarrow> SStr []
      | Some entry \<Rightarrow> or_empty (value_member entry ComfortIndex))"
  "rain (forecast_at we i t) =
     (case entry_at we el_ProbabilityOfPrecipitation i of
        None \<Rightarrow> []
      | Some entry \<Rightarrow> with_unit (value_member entry ProbabilityOfPrecipitation) ''%'')"
  "windDirection (forecast_at we i t) =
     (case entry_at we el_WindDirection i of
        None \<Rightarrow> SStr []
      | Some entry \<Rightarrow> or_empty (value_member entry WindDirection))"
  "windSpeed (forecast_at we i t) =
     (case entry_at we el_WindSpeed i of
        None \<Rightarrow> []
      | Some entry \<Rightarrow> with_unit (value_member entry WindSpeed) '' m/s'')"
  "humidity (forecast_at we i t) =
     (case entry_at we el_RelativeHumidity i of
        None \<Rightarrow> []
      | Some entry \<Rightarrow> with_unit (value_member entry RelativeHumidity) ''%'')"
  "description (forecast_at we i t) =
     (case entry_at we el_WeatherDescription i of
        None \<Rightarrow> SStr []
      | Some entry \<Rightarrow> or_empty (value_member entry WeatherDescription))"
  by (simp_all add: forecast_at_def Let_def when_present_sel split: option.splits)

subsection \<open>The sample payload\<close>

lemmas element_names =
  el_Weather_def el_Temperature_def el_ApparentTemperature_def el_ComfortIndex_def
  el_ProbabilityOfPrecipitation_def el_WindDirection_def el_WindSpeed_def
  el_RelativeHumidity_def el_WeatherDescription_def

lemma sample_first_location: "first_location sample_payload = Some sample_location"
  by (simp add: first_location_def sample_payload_def first_entry_def)

lemma sample_weather_element: "WeatherElement sample_location = Some sample_elements"
  by (simp add: sample_location_def)

lemma sample_series:
  "series_of sample_elements el_Weather = sample_master"
  "length (series_of sample_elements el_Temperature) = 2"
  "length (series_of sample_elements el_WindSpeed) = 4"
  "series_of sample_elements el_RelativeHumidity = []"
  "series_of sample_elements el_ComfortIndex = []"
  by (simp_all add: series_of_def sample_elements_def named_def property_key_def element_names)

lemma sample_complete:
  "None \<notin> set sample_elements" "None \<notin> set (series_of sample_elements el_Weather)"
  by (simp_all add: sample_series) (simp_all add: sample_elements_def sample_master_def)

lemma sample_returns: "\<exists>wd. transform sample_payload name = Inr (Forecast wd)"
  using transform_returns [OF sample_first_location sample_weather_element sample_complete] .

subsection \<open>The handler once the key is set\<close>

lemma getWeather_with_key:
  assumes "string_truthy apiKey"
  shows "\<exists>url key. fst (getWeather wording apiKey req axios_get) = [(url, key)] \<and>
     snd (getWeather wording apiKey req axios_get) =
       (case (case axios_get url key of
                Inl e \<Rightarrow> Inl e
              | Inr data \<Rightarrow> transform data (resolve_location (requested_location req))) of
          Inr NotFound \<Rightarrow>
            Sent 404
              (JObj [(''error'', JStr msg_no_data),
                     (''message'',
                        JStr (msg_cannot_get @ resolve_location (requested_location req) @
                              msg_weather_data))])
        | Inr (Forecast weatherData) \<Rightarrow>
            Sent 200 (JObj [(''success'', JBool True), (''data'', weather_data_json weatherData)])
        | Inl error \<Rightarrow> on_error wording error)"
  using assms by (simp add: getWeather_def Let_def)

lemma getWeather_upstream_ok:
  assumes "string_truthy apiKey"
  shows "snd (getWeather wording apiKey req (upstream_ok data)) =
       (case transform data (resolve_location (requested_location req)) of
          Inr NotFound \<Rightarrow>
            Sent 404
              (JObj [(''error'', JStr msg_no_data),
                     (''message'',
                        JStr (msg_cannot_get @ resolve_location (requested_location req) @
                              msg_weather_data))])
        | Inr (Forecast weatherData) \<Rightarrow>
            Sent 200 (JObj [(''success'', JBool True), (''data'', weather_data_json weatherData)])
        | Inl error \<Rightarrow> on_error wording error)"
  using getWeather_with_key [OF assms, of wording req "upstream_ok data"]
  by (auto simp add: upstream_ok_def)

lemma with_unit_rendered: "with_unit v unit = rendered v unit"
  by (cases "(v, unit)" rule: rendered.cases) (simp_all add: with_unit_def)

subsection \<open>What is written and what is kept\<close>

lemma written_finite: "finite_numbers v \<Longrightarrow> written v = v"
proof (induction v)
  case (JArr xs)
  then have "map written xs = xs" by (simp add: map_idI)
  then show ?case by simp
next
  case (JObj ms)
  have "map_prod id written m = m" if "m \<in> set ms" for m
  proof -
    obtain k v where m: "m = (k, v)" by (cases m)
    with that JObj.prems have "finite_numbers v" by force
    moreover from that m have "v \<in> Basic_BNFs.snds m" by (simp add: snds.simps)
    ultimately have "written v = v" using JObj.IH that by blast
    with m show ?thesis by simp
  qed
  then have "map (map_prod id written) ms = ms" by (simp add: map_idI)
  then show ?case by simp
qed (simp_all add: non_finite_def)

lemma finite_shown_message: "finite_numbers data \<Longrightarrow> finite_numbers (shown_message data)"
proof (cases data)
  case (JObj ms)
  assume f: "finite_numbers data"
  show ?thesis
  proof (cases "map_of ms ''message''")
    case None
    with JObj show ?thesis by (simp add: shown_message_def)
  next
    case (Some v)
    then have "(''message'', v) \<in> set ms" by (rule map_of_SomeD)
    with f JObj have "finite_numbers v" by force
    with JObj Some show ?thesis by (simp add: shown_message_def)
  qed
qed (simp_all add: shown_message_def)


subsection \<open>The upstream request\<close>

lemma resolved_has_dataset:
  "\<exists>id. map_of LOCATION_API_MAP (resolve_location l) = Some id"
proof -
  have d: "DEFAULT_LOCATION \<in> set VALID_LOCATIONS"
    by (simp add: DEFAULT_LOCATION_def VALID_LOCATIONS_def)
  have "resolve_location l \<in> set VALID_LOCATIONS"
  proof (cases l)
    case None
    with d show ?thesis by (simp add: resolve_location_def)
  next
    case (Some q)
    with d show ?thesis by (cases q) (simp_all add: resolve_location_def)
  qed
  moreover have "\<forall>x \<in> set (map (map_of LOCATION_API_MAP) VALID_LOCATIONS). \<exists>id. x = Some id"
    unfolding dataset_ids by auto
  ultimately show ?thesis by simp
qed

lemma getWeather_requests:
  assumes "apiKey = Some key" and "key \<noteq> []"
  shows "\<exists>id. map_of LOCATION_API_MAP (resolve_location (requested_location req)) = Some id \<and>
          fst (getWeather wording apiKey req axios_get) =
            [(CWA_API_BASE_URL @ ''/v1/rest/datastore/'' @ id, key)]"
proof -
  from resolved_has_dataset obtain id
    where "map_of LOCATION_API_MAP (resolve_location (requested_location req)) = Some id"
    by blast
  with assms show ?thesis by (simp add: getWeather_def Let_def)
qed

section \<open>Properties of the handler\<close>

subsection \<open>The transformer\<close>

text \<open>
  C1. Whenever the transformer produces a result, the number of its forecast periods is
  the length of the time series of the weather phenomenon element of the first
  sub-location; when no element carries that name the result has no period. Nothing is
  assumed of the other series. (The lemma \<open>transform_returns\<close> gives the payloads for
  which there is a result.)
\<close>

theorem period_count_follows_master:
  assumes "transform data locationName = Inr (Forecast wd)"
    and "first_location data = Some loc"
    and "WeatherElement loc = Some elements"
  shows "length (forecasts wd) = length (series_of elements el_Weather) \<and>
         ((\<forall>e \<in> set elements. \<not> named el_Weather e) \<longrightarrow> forecasts wd = [])"
proof -
  have n: "length (forecasts wd) = length (series_of elements el_Weather)"
    using transform_forecasts(4) [OF assms] by simp
  moreover have "forecasts wd = []" if "\<forall>e \<in> set elements. \<not> named el_Weather e"
    using n series_of_absent [OF that] by simp
  ultimately show ?thesis by blast
qed

theorem period_count_follows_master_witness:
  "(\<exists>wd. transform sample_payload Taipei_City = Inr (Forecast wd) \<and>
         length (forecasts wd) = 3 \<and>
         length (series_of sample_elements el_Temperature) = 2 \<and>
         length (series_of sample_elements el_WindSpeed) = 4) \<and>
   (\<exists>wd. transform payload_without_master Taipei_City = Inr (Forecast wd) \<and>
         forecasts wd = [] \<and>
         length (series_of elements_without_master el_Temperature) = 2)"
proof -
  from sample_returns obtain wd
    where wd: "transform sample_payload Taipei_City = Inr (Forecast wd)" by blast
  from period_count_follows_master [OF wd sample_first_location sample_weather_element]
  have "length (forecasts wd) = 3"
    by (simp add: sample_series sample_master_def)
  with wd have first: "\<exists>wd. transform sample_payload Taipei_City = Inr (Forecast wd) \<and>
         length (forecasts wd) = 3 \<and>
         length (series_of sample_elements el_Temperature) = 2 \<and>
         length (series_of sample_elements el_WindSpeed) = 4"
    by (auto simp add: sample_series)
  have f: "first_location payload_without_master = Some location_without_master"
    by (simp add: first_location_def payload_without_master_def first_entry_def)
  have e: "WeatherElement location_without_master = Some elements_without_master"
    by (simp add: location_without_master_def)
  have absent: "\<forall>e \<in> set elements_without_master. \<not> named el_Weather e"
    by (simp add: elements_without_master_def named_def property_key_def element_names)
  have "None \<notin> set elements_without_master"
    "None \<notin> set (series_of elements_without_master el_Weather)"
    by (simp_all add: series_of_absent [OF absent]) (simp add: elements_without_master_def)
  from transform_returns [OF f e this] obtain wd'
    where wd': "transform payload_without_master Taipei_City = Inr (Forecast wd')" by blast
  from period_count_follows_master [OF wd' f e] absent
  have "forecasts wd' = []" by blast
  moreover have "length (series_of elements_without_master el_Temperature) = 2"
    by (simp add: series_of_def elements_without_master_def named_def property_key_def
        element_names)
  ultimately have "\<exists>wd. transform payload_without_master Taipei_City = Inr (Forecast wd) \<and>
         forecasts wd = [] \<and>
         length (series_of elements_without_master el_Temperature) = 2"
    using wd' by blast
  with first show ?thesis by blast
qed



text \<open>
  C7, as the handler behaves. For temperature, apparent temperature, wind speed,
  precipitation probability and humidity the attribute is the raw value at the index
  followed by the unit (the degree sign and \<open>C\<close>, the same, \<open>" m/s"\<close>, \<open>"%"\<close>, \<open>"%"\<close>) when
  the raw value is truthy: a non-empty string, or a number other than zero, printed as
  JavaScript prints it. It is the empty string when the raw value is missing, \<open>null\<close>,
  the empty string or the number zero.
\<close>

theorem unit_suffix_law:
  assumes "transform data locationName = Inr (Forecast wd)"
    and "first_location data = Some loc"
    and "WeatherElement loc = Some elements"
    and "i < length (forecasts wd)"
  shows
    "temperature (forecasts wd ! i) =
       rendered (raw_value elements el_Temperature Temperature i) unit_degC \<and>
     apparentTemp (forecasts wd ! i) =
       rendered (raw_value elements el_ApparentTemperature ApparentTemperature i) unit_degC \<and>
     windSpeed (forecasts wd ! i) =
       rendered (raw_value elements el_WindSpeed WindSpeed i) '' m/s'' \<and>
     rain (forecasts wd ! i) =
       rendered
         (raw_value elements el_ProbabilityOfPrecipitation ProbabilityOfPrecipitation i)
         ''%'' \<and>
     humidity (forecasts wd ! i) =
       rendered (raw_value elements el_RelativeHumidity RelativeHumidity i) ''%'' \<and>
     unit_degC = [CHR 0xC2, CHR 0xB0, CHR ''C'']"
proof -
  from forecast_nth [OF assms] obtain t
    where f: "forecasts wd ! i = forecast_at (collected elements) i t" by blast
  show ?thesis
    by (simp add: f forecast_at_fields entry_at_collected raw_value_def with_unit_rendered
        unit_degC_def split: option.splits)
qed

theorem unit_suffix_law_witness:
  "\<exists>wd. transform sample_payload Taipei_City = Inr (Forecast wd) \<and>
        raw_value sample_elements el_Temperature Temperature 0 = Some (SStr ''25'') \<and>
        temperature (forecasts wd ! 0) = ''25'' @ [CHR 0xC2, CHR 0xB0, CHR ''C''] \<and>
        raw_value sample_elements el_Temperature Temperature 1 = Some (SStr []) \<and>
        temperature (forecasts wd ! 1) = [] \<and>
        raw_value sample_elements el_Temperature Temperature 2 = None \<and>
        temperature (forecasts wd ! 2) = [] \<and>
        raw_value sample_elements el_WindSpeed WindSpeed 1 = Some (SNum ''4'') \<and>
        windSpeed (forecasts wd ! 1) = ''4 m/s'' \<and>
        raw_value sample_elements el_RelativeHumidity RelativeHumidity 1 = None \<and>
        humidity (forecasts wd ! 1) = []"
proof -
  from sample_returns obtain wd
    where wd: "transform sample_payload Taipei_City = Inr (Forecast wd)" by blast
  have n: "length (forecasts wd) = 3"
    using transform_forecasts(4) [OF wd sample_first_location sample_weather_element]
    by (simp add: sample_series sample_master_def)
  have r: "raw_value sample_elements el_Temperature Temperature 0 = Some (SStr ''25'')"
    "raw_value sample_elements el_Temperature Temperature 1 = Some (SStr [])"
    "raw_value sample_elements el_Temperature Temperature 2 = None"
    "raw_value sample_elements el_WindSpeed WindSpeed 1 = Some (SNum ''4'')"
    "raw_value sample_elements el_RelativeHumidity RelativeHumidity 1 = None"
    by (simp_all add: raw_value_def series_entry_def series_of_def sample_elements_def
        named_def property_key_def element_names sample_timed_def value_member_def
        first_value_def first_entry_def no_value_def)
  have "0 < length (forecasts wd)" "1 < length (forecasts wd)" "2 < length (forecasts wd)"
    using n by simp_all
  from unit_suffix_law [OF wd sample_first_location sample_weather_element this(1)]
    unit_suffix_law [OF wd sample_first_location sample_weather_element this(2)]
    unit_suffix_law [OF wd sample_first_location sample_weather_element this(3)]
  have "temperature (forecasts wd ! 0) = ''25'' @ [CHR 0xC2, CHR 0xB0, CHR ''C''] \<and>
        temperature (forecasts wd ! 1) = [] \<and>
        temperature (forecasts wd ! 2) = [] \<and>
        windSpeed (forecasts wd ! 1) = ''4 m/s'' \<and>
        humidity (forecasts wd ! 1) = []"
    by (simp add: r r [unfolded One_nat_def])
  with wd r show ?thesis by blast
qed

text \<open>
  C7, as stated, fails for a raw value that is the number zero: it is present and not
  empty, yet the test \<open>temp ? ... : ""\<close> of line 168 takes it for missing and the
  temperature sent is the empty string, not \<open>0\<close> with the unit.
\<close>

theorem zero_temperature_renders_empty:
  "raw_value elements_with_zero el_Temperature Temperature 0 = Some (SNum ''0'') \<and>
   map temperature (forecasts_of (transform payload_with_zero Taipei_City)) = [[]] \<and>
   map temperature (forecasts_of (transform payload_with_zero Taipei_City)) \<noteq>
     [''0'' @ unit_degC]"
  by (simp add: raw_value_def series_entry_def series_of_def elements_with_zero_def
      named_def property_key_def element_names sample_timed_def value_member_def
      first_value_def first_entry_def no_value_def transform_def payload_with_zero_def
      location_with_zero_def Let_def forecast_at_def when_present_def entry_at_def
      with_unit_def or_empty_def)



subsection \<open>The resolver and the table of data sets\<close>

text \<open>
  C3. A requested name that is a string of \<open>VALID_LOCATIONS\<close> is resolved to itself;
  every other value (nothing, the empty string, a string outside the list, an array or
  object) is resolved to \<open>DEFAULT_LOCATION\<close>, the name of Taichung City. The resolver is
  a total function into names: no input makes it fail.
\<close>

theorem resolver_allow_list:
  "(s \<in> set VALID_LOCATIONS \<longrightarrow> resolve_location (Some (QString s)) = s) \<and>
   ((\<forall>s. locationName = Some (QString s) \<longrightarrow> s \<notin> set VALID_LOCATIONS) \<longrightarrow>
      resolve_location locationName = DEFAULT_LOCATION) \<and>
   DEFAULT_LOCATION = Taichung_City"
proof (intro conjI impI)
  assume "s \<in> set VALID_LOCATIONS"
  moreover from this have "s \<noteq> []" using empty_not_valid by auto
  ultimately show "resolve_location (Some (QString s)) = s"
    by (simp add: resolve_location_def)
next
  assume h: "\<forall>s. locationName = Some (QString s) \<longrightarrow> s \<notin> set VALID_LOCATIONS"
  show "resolve_location locationName = DEFAULT_LOCATION"
  proof (cases locationName)
    case None
    then show ?thesis by (simp add: resolve_location_def)
  next
    case (Some q)
    with h show ?thesis by (cases q) (simp_all add: resolve_location_def)
  qed
next
  show "DEFAULT_LOCATION = Taichung_City" by (simp add: DEFAULT_LOCATION_def)
qed

theorem resolver_allow_list_witness:
  "resolve_location (requested_location (request_by_query Taipei_City)) = Taipei_City \<and>
   resolve_location (requested_location (request_by_path Pingtung_County)) = Pingtung_County \<and>
   resolve_location (requested_location request_plain) = Taichung_City \<and>
   resolve_location (requested_location (request_by_query ''Atlantis'')) = Taichung_City \<and>
   resolve_location (Some QNested) = Taichung_City"
proof -
  have v: "Taipei_City \<in> set VALID_LOCATIONS" "Pingtung_County \<in> set VALID_LOCATIONS"
    by (simp_all add: VALID_LOCATIONS_def)
  have a: "\<forall>s. Some (QString ''Atlantis'') = Some (QString s) \<longrightarrow> s \<notin> set VALID_LOCATIONS"
    by (simp add: VALID_LOCATIONS_def location_names)
  have r: "requested_location (request_by_query Taipei_City) = Some (QString Taipei_City)"
    "requested_location (request_by_path Pingtung_County) = Some (QString Pingtung_County)"
    "requested_location request_plain = None"
    "requested_location (request_by_query ''Atlantis'') = Some (QString ''Atlantis'')"
    by (simp_all add: requested_location_def request_by_query_def request_by_path_def
        request_plain_def location_names)
  show ?thesis
    using resolver_allow_list [of Taipei_City None] resolver_allow_list [of Pingtung_County None]
      resolver_allow_list [of "[]" "Some (QString ''Atlantis'')"]
      resolver_allow_list [of "[]" "Some QNested"] v a
    by (simp add: r)
qed

text \<open>
  C4. \<open>VALID_LOCATIONS\<close> holds 22 distinct names; \<open>LOCATION_API_MAP\<close> gives every one of
  them a data set id, gives two different names different ids, and has no other key.
\<close>

theorem dataset_table_total_injective:
  "length VALID_LOCATIONS = 22 \<and> distinct VALID_LOCATIONS \<and>
   (\<forall>name \<in> set VALID_LOCATIONS. \<exists>id. map_of LOCATION_API_MAP name = Some id) \<and>
   inj_on (map_of LOCATION_API_MAP) (set VALID_LOCATIONS) \<and>
   fst ` set LOCATION_API_MAP = set VALID_LOCATIONS"
proof -
  have "\<forall>x \<in> set (map (map_of LOCATION_API_MAP) VALID_LOCATIONS). \<exists>id. x = Some id"
    unfolding dataset_ids by auto
  then have total: "\<forall>name \<in> set VALID_LOCATIONS. \<exists>id. map_of LOCATION_API_MAP name = Some id"
    by simp
  have inj: "inj_on (map_of LOCATION_API_MAP) (set VALID_LOCATIONS)"
    using dataset_ids_distinct by (simp add: distinct_map)
  have keys: "fst ` set LOCATION_API_MAP = set VALID_LOCATIONS"
    by (auto simp add: LOCATION_API_MAP_def VALID_LOCATIONS_def)
  from total inj keys show ?thesis
    by (simp add: length_valid distinct_valid)
qed

theorem dataset_table_total_injective_witness:
  "Taichung_City \<in> set VALID_LOCATIONS \<and> Taipei_City \<in> set VALID_LOCATIONS \<and>
   map_of LOCATION_API_MAP Taichung_City = Some ''F-D0047-075'' \<and>
   map_of LOCATION_API_MAP Taipei_City = Some ''F-D0047-063'' \<and>
   map_of LOCATION_API_MAP Taichung_City \<noteq> map_of LOCATION_API_MAP Taipei_City"
proof -
  have v: "Taichung_City \<in> set VALID_LOCATIONS" "Taipei_City \<in> set VALID_LOCATIONS"
    by (simp_all add: VALID_LOCATIONS_def)
  have ne: "Taichung_City \<noteq> Taipei_City" by (simp add: location_names)
  from dataset_table_total_injective
  have "inj_on (map_of LOCATION_API_MAP) (set VALID_LOCATIONS)" by blast
  with v ne have "map_of LOCATION_API_MAP Taichung_City \<noteq> map_of LOCATION_API_MAP Taipei_City"
    by (auto dest: inj_onD)
  moreover have "map_of LOCATION_API_MAP Taichung_City = Some ''F-D0047-075''"
    "map_of LOCATION_API_MAP Taipei_City = Some ''F-D0047-063''"
    by (simp_all add: LOCATION_API_MAP_def location_names)
  ultimately show ?thesis using v by blast
qed

subsection \<open>Errors\<close>

text \<open>
  C5, as the handler behaves. When the upstream answers with a status from 400 to 599
  and a body that is not \<open>null\<close> and holds no infinite number, the handler answers with
  that status and the body \<open>{error, message, details}\<close>: \<open>details\<close> is the upstream body,
  unchanged, and \<open>message\<close> is the upstream body's member \<open>message\<close> when it is truthy,
  else a fixed text. When the upstream cannot be reached there is no upstream status:
  the handler answers 500 with \<open>{error, message, debug}\<close>, \<open>debug\<close> being the message of
  the failure. Either way the handler has issued one upstream request and no other,
  for the data set of the resolved location.
\<close>

theorem upstream_error_response:
  assumes "apiKey = Some key" and "key \<noteq> []"
  shows
    "(400 \<le> status \<and> status \<le> 599 \<and> data \<noteq> JNull \<and> finite_numbers data \<longrightarrow>
        snd (getWeather wording apiKey req
               (upstream_fails (AxiosError m (Some (status, data))))) =
          Sent status
            (JObj [(''error'', JStr msg_cwa_error),
                   (''message'', shown_message data),
                   (''details'', data)])) \<and>
     snd (getWeather wording apiKey req (upstream_fails (AxiosError m None))) =
       Sent 500
         (JObj [(''error'', JStr msg_server_error),
                (''message'', JStr msg_try_later),
                (''debug'', JStr m)]) \<and>
     (\<exists>id. map_of LOCATION_API_MAP (resolve_location (requested_location req)) = Some id \<and>
           fst (getWeather wording apiKey req (upstream_fails e)) =
             [(CWA_API_BASE_URL @ ''/v1/rest/datastore/'' @ id, key)])"
proof -
  have k: "string_truthy apiKey" using assms by simp
  have a: "snd (getWeather wording apiKey req (upstream_fails e')) = on_error wording e'" for e'
    using getWeather_with_key [OF k, of wording req "upstream_fails e'"]
    by (auto simp add: upstream_fails_def)
  have b: "on_error wording (AxiosError m (Some (status, data))) =
      Sent status
        (JObj [(''error'', JStr msg_cwa_error),
               (''message'', shown_message data),
               (''details'', data)])"
    if s: "400 \<le> status" "status \<le> 599" and d: "data \<noteq> JNull" and f: "finite_numbers data"
  proof -
    from d have "on_error wording (AxiosError m (Some (status, data))) =
      respond status
        (JObj [(''error'', JStr msg_cwa_error),
               (''message'', shown_message data),
               (''details'', data)])"
      by (cases data) (auto simp add: on_error_def shown_message_def split: option.splits)
    moreover have "written (shown_message data) = shown_message data" "written data = data"
      using f by (simp_all add: written_finite finite_shown_message)
    ultimately show ?thesis using s by (simp add: respond_def)
  qed
  have c: "on_error wording (AxiosError m None) =
      Sent 500
         (JObj [(''error'', JStr msg_server_error),
                (''message'', JStr msg_try_later),
                (''debug'', JStr m)])"
    by (simp add: on_error_def)
  from a b c getWeather_requests [OF assms, of req wording "upstream_fails e"]
  show ?thesis by simp
qed

theorem upstream_error_response_witness:
  "snd (getWeather sample_wording (Some ''key'') request_plain upstream_503) =
     Sent 503
       (JObj [(''error'', JStr msg_cwa_error),
              (''message'', JStr ''rate limited''),
              (''details'', rate_limited)]) \<and>
   snd (getWeather sample_wording (Some ''key'') request_plain upstream_unreachable) =
     Sent 500
       (JObj [(''error'', JStr msg_server_error),
              (''message'', JStr msg_try_later),
              (''debug'', JStr ''connect ECONNREFUSED'')]) \<and>
   fst (getWeather sample_wording (Some ''key'') request_plain upstream_503) =
     [(''https://opendata.cwa.gov.tw/api/v1/rest/datastore/F-D0047-075'', ''key'')]"
proof -
  have k: "Some ''key'' = Some ''key''" "''key'' \<noteq> []" by simp_all
  have n: "rate_limited \<noteq> JNull" "finite_numbers rate_limited"
    by (simp_all add: rate_limited_def)
  have s: "shown_message rate_limited = JStr ''rate limited''"
    by (simp add: shown_message_def rate_limited_def)
  have l: "map_of LOCATION_API_MAP (resolve_location (requested_location request_plain)) =
      Some ''F-D0047-075''"
    by (simp add: resolve_location_def requested_location_def request_plain_def
        DEFAULT_LOCATION_def LOCATION_API_MAP_def location_names)
  show ?thesis
    using upstream_error_response [OF k, where data = rate_limited and status = 503
        and m = "''Request failed with status code 503''" and wording = sample_wording
        and req = request_plain
        and e = "AxiosError ''Request failed with status code 503'' (Some (503, rate_limited))"]
      upstream_error_response [OF k, where data = rate_limited and status = 503
        and m = "''connect ECONNREFUSED''" and wording = sample_wording
        and req = request_plain and e = "AxiosError ''connect ECONNREFUSED'' None"] n
    by (simp add: s l upstream_503_def upstream_unreachable_def CWA_API_BASE_URL_def)
qed

text \<open>
  C5, as stated, fails: to an upstream 503 with the body \<open>{"message": "rate limited"}\<close>
  the handler does not answer with that body but with one that wraps it, and an
  upstream that cannot be reached is answered with status 500.
\<close>

theorem upstream_error_not_passed_through:
  "snd (getWeather sample_wording (Some ''key'') request_plain upstream_503) \<noteq>
     Sent 503 rate_limited \<and>
   snd (getWeather sample_wording (Some ''key'') request_plain upstream_unreachable) =
     Sent 500
       (JObj [(''error'', JStr msg_server_error),
              (''message'', JStr msg_try_later),
              (''debug'', JStr ''connect ECONNREFUSED'')])"
  by (simp add: getWeather_def Let_def upstream_503_def upstream_unreachable_def
      upstream_fails_def on_error_def rate_limited_def respond_def)

text \<open>
  C6, as the handler behaves. For a payload that has \<open>records\<close> but no first entry of
  \<open>Locations\<close>, or no first entry of its \<open>Location\<close> (a list that is missing, empty, or
  starts with \<open>null\<close>), the transformer signals not-found, no forecast result is
  produced, and the handler answers 404 with the body \<open>{error, message}\<close>.
\<close>

theorem not_found_when_entry_missing:
  assumes "string_truthy apiKey"
    and "records data = Some recs"
    and "first_location data = None"
  shows "transform data locationName = Inr NotFound \<and>
     snd (getWeather wording apiKey req (upstream_ok data)) =
       Sent 404
         (JObj [(''error'', JStr msg_no_data),
                (''message'',
                   JStr (msg_cannot_get @ resolve_location (requested_location req) @
                         msg_weather_data))])"
proof -
  have "transform data name = Inr NotFound" for name
    using assms(2,3)
    by (auto simp add: transform_def first_location_def Let_def split: option.splits)
  then show ?thesis
    by (simp add: getWeather_upstream_ok [OF assms(1)])
qed

theorem not_found_when_entry_missing_witness:
  "transform payload_without_regions Taichung_City = Inr NotFound \<and>
   snd (getWeather sample_wording (Some ''key'') request_plain
          (upstream_ok payload_without_regions)) =
     Sent 404
       (JObj [(''error'', JStr msg_no_data),
              (''message'', JStr (msg_cannot_get @ Taichung_City @ msg_weather_data))])"
proof -
  have k: "string_truthy (Some ''key'')" by simp
  have r: "records payload_without_regions = Some \<lparr>Locations = Some []\<rparr>"
    by (simp add: payload_without_regions_def)
  have f: "first_location payload_without_regions = None"
    by (simp add: first_location_def payload_without_regions_def first_entry_def)
  have l: "resolve_location (requested_location request_plain) = Taichung_City"
    by (simp add: resolve_location_def requested_location_def request_plain_def
        DEFAULT_LOCATION_def)
  show ?thesis
    using not_found_when_entry_missing [OF k r f, of Taichung_City sample_wording request_plain]
    by (simp add: l)
qed

text \<open>
  C6, as stated, fails for a payload without \<open>records\<close>: it has no first region entry,
  yet line 114 throws on reading \<open>Locations\<close> and the handler answers 500 from the
  catch-all branch.
\<close>

theorem missing_records_is_500:
  "first_location payload_without_records = None \<and>
   snd (getWeather sample_wording (Some ''key'') request_plain
          (upstream_ok payload_without_records)) =
     Sent 500
       (JObj [(''error'', JStr msg_server_error),
              (''message'', JStr msg_try_later),
              (''debug'', JStr (sample_wording ''Locations''))])"
  by (simp add: first_location_def payload_without_records_def getWeather_def Let_def
      upstream_ok_def transform_def on_error_def)

text \<open>
  C9. For a payload whose first sub-location exists but has no \<open>WeatherElement\<close>, line
  134 throws; the error has no \<open>response\<close>, so the handler answers 500 with the body
  \<open>{error, message, debug}\<close> and not 404.
\<close>

theorem missing_element_list_is_500:
  assumes "string_truthy apiKey"
    and "first_location data = Some loc"
    and "WeatherElement loc = None"
  shows "transform data locationName = Inl (TypeError ''forEach'') \<and>
     snd (getWeather wording apiKey req (upstream_ok data)) =
       Sent 500
         (JObj [(''error'', JStr msg_server_error),
                (''message'', JStr msg_try_later),
                (''debug'', JStr (wording ''forEach''))])"
proof -
  have "transform data name = Inl (TypeError ''forEach'')" for name
    using assms(2,3)
    by (auto simp add: transform_def first_location_def Let_def split: option.splits)
  then show ?thesis
    by (simp add: getWeather_upstream_ok [OF assms(1)] on_error_def)
qed

theorem missing_element_list_is_500_witness:
  "first_location payload_without_elements = Some location_without_elements \<and>
   transform payload_without_elements Taichung_City = Inl (TypeError ''forEach'') \<and>
   snd (getWeather sample_wording (Some ''key'') request_plain
          (upstream_ok payload_without_elements)) =
     Sent 500
       (JObj [(''error'', JStr msg_server_error),
              (''message'', JStr msg_try_later),
              (''debug'', JStr (sample_wording ''forEach''))])"
proof -
  have k: "string_truthy (Some ''key'')" by simp
  have f: "first_location payload_without_elements = Some location_without_elements"
    by (simp add: first_location_def payload_without_elements_def first_entry_def)
  have w: "WeatherElement location_without_elements = None"
    by (simp add: location_without_elements_def)
  show ?thesis
    using missing_element_list_is_500 [OF k f w, of Taichung_City sample_wording request_plain] f
    by simp
qed

end
